theory Spec2Isabelle
  imports Complex_Main "HOL-Library.Sublist" "HOL-Library.Char_ord" "HOL-Library.List_Lexorder"
begin

section \<open>Common data: errors, text, the glacier directory\<close>

text \<open>
  The Python exceptions that the modelled functions of \<^verbatim>\<open>initialization/core.py\<close> can
  let escape. A function that can raise returns \<open>exn + 'a\<close>, \<open>Inl\<close> carrying the exception.
\<close>

datatype exn =
  SimulationError | FileError | KeyError | IndexError | ValueError
  | ZeroDivisionError | AttributeError

text \<open>\<^verbatim>\<open>str(n)\<close> of a non-negative Python \<^verbatim>\<open>int\<close>: its decimal digits.\<close>

definition digit_char :: "nat \<Rightarrow> char" where
  "digit_char d = ''0123456789'' ! d"

fun str_nat :: "nat \<Rightarrow> string" where
  "str_nat n = (if n < 10 then [digit_char n] else str_nat (n div 10) @ [digit_char (n mod 10)])"

declare str_nat.simps [simp del]

text \<open>\<^verbatim>\<open>s.startswith(p)\<close> and \<^verbatim>\<open>s.endswith(p)\<close>.\<close>

definition startswith :: "string \<Rightarrow> string \<Rightarrow> bool" where
  "startswith s p = prefix p s"

definition endswith :: "string \<Rightarrow> string \<Rightarrow> bool" where
  "endswith s p = suffix p s"

text \<open>
  The part of an OGGM glacier directory that the stabilization prober touches: the names
  of the files in \<^verbatim>\<open>gdir.dir\<close>, the diagnostics record (\<^verbatim>\<open>diagnostics.json\<close>), and a
  count of the forward simulations started so far, kept only to state which calls run the
  flow model.
\<close>

record gdir =
  files :: "string list"
  diagnostics :: "string \<rightharpoonup> nat"
  sim_runs :: nat

section \<open>StabilizationProber: \<^verbatim>\<open>_single_time_to_stable\<close>\<close>

text \<open>
  \<^verbatim>\<open>tasks.run_random_climate(gdir, nyears=100, y0=ys, seed=1, ..., output_filesuffix='_<out>')\<close>.
  The flow model is external: \<open>vol ys out\<close> is the value \<^verbatim>\<open>volume_m3_ts()[99]\<close> of the run
  stored under the suffix \<^verbatim>\<open>_<out>\<close>, and \<open>None\<close> when that run raises. A run that succeeds
  writes its geometry and diagnostics files into \<^verbatim>\<open>gdir.dir\<close>. Volumes are floats in the
  source and exact rationals here.
\<close>

definition run_random_climate :: "(nat \<Rightarrow> nat \<Rightarrow> rat option) \<Rightarrow> nat \<Rightarrow> nat \<Rightarrow> gdir \<Rightarrow> exn + gdir" where
  "run_random_climate vol ys out g =
     (case vol ys out of
        None \<Rightarrow> Inl SimulationError
      | Some _ \<Rightarrow>
          Inr (g\<lparr>files := List.insert (''model_geometry_'' @ str_nat out @ ''.nc'')
                          (List.insert (''model_diagnostics_'' @ str_nat out @ ''.nc'') (files g)),
                 sim_runs := Suc (sim_runs g)\<rparr>))"

text \<open>
  The test of lines 53-54 and 68-69:
  \<^verbatim>\<open>np.abs(v2 - v1) / (v1 + 0.000001) < 0.05\<close>. With a zero denominator numpy yields
  \<^verbatim>\<open>inf\<close> or \<^verbatim>\<open>nan\<close>, and the comparison is false.
\<close>

definition volume_stable :: "rat \<Rightarrow> rat \<Rightarrow> bool" where
  "volume_stable v1 v2 \<longleftrightarrow> v1 + 1 / 1000000 \<noteq> 0 \<and> \<bar>v2 - v1\<bar> / (v1 + 1 / 1000000) < 5 / 100"

text \<open>
  The \<^verbatim>\<open>while year < 10001\<close> loop, from the value of \<^verbatim>\<open>year\<close> at the loop head; it returns the
  value of \<^verbatim>\<open>year\<close> after the loop. Only the first pass (\<^verbatim>\<open>year == 100\<close>) runs \<^verbatim>\<open>model1\<close>;
  every pass runs \<^verbatim>\<open>model2\<close>, reads both result files, adds 100 to \<^verbatim>\<open>year\<close> and breaks when
  the volume is stable.
\<close>

function stable_loop :: "(nat \<Rightarrow> nat \<Rightarrow> rat option) \<Rightarrow> nat \<Rightarrow> nat \<Rightarrow> gdir \<Rightarrow> exn + (nat \<times> gdir)" where
  "stable_loop vol ys year g =
     (if year < 10001 then
        (case (if year = 100 then run_random_climate vol ys year g else Inr g) of
           Inl e \<Rightarrow> Inl e
         | Inr g1 \<Rightarrow>
             (case run_random_climate vol ys (year + 100) g1 of
                Inl e \<Rightarrow> Inl e
              | Inr g2 \<Rightarrow>
                  (case vol ys year of
                     None \<Rightarrow> Inl FileError
                   | Some v1 \<Rightarrow>
                       (case vol ys (year + 100) of
                          None \<Rightarrow> Inl FileError
                        | Some v2 \<Rightarrow>
                            if volume_stable v1 v2 then Inr (year + 100, g2)
                            else stable_loop vol ys (year + 100) g2))))
      else Inr (year, g))"
  by pat_completeness auto
termination
  by (relation "measure (\<lambda>(vol, ys, year, g). 10101 - year)") auto

declare stable_loop.simps [simp del]

text \<open>The clean-up of lines 76-80: which names of \<^verbatim>\<open>os.listdir(gdir.dir)\<close> are removed.\<close>

definition intermediate_file :: "string \<Rightarrow> bool" where
  "intermediate_file file \<longleftrightarrow>
     (startswith file ''model_geometry'' \<and> endswith file ''00.nc'')
     \<or> (startswith file ''model_diagnostics'' \<and> endswith file ''00.nc'')"

text \<open>
  \<^verbatim>\<open>_single_time_to_stable(gdir, ys)\<close>: nothing at all without
  \<^verbatim>\<open>model_flowlines.pkl\<close>; otherwise the loop from \<^verbatim>\<open>year = 100\<close>, the clean-up, and
  \<^verbatim>\<open>add_to_diagnostics('years_to_stable', year + 100)\<close> when \<^verbatim>\<open>year < 10001\<close>. An exception of
  the flow model is not caught.
\<close>

definition single_time_to_stable :: "(nat \<Rightarrow> nat \<Rightarrow> rat option) \<Rightarrow> gdir \<Rightarrow> nat \<Rightarrow> exn + gdir" where
  "single_time_to_stable vol g ys =
     (if ''model_flowlines.pkl'' \<in> set (files g) then
        (case stable_loop vol ys 100 g of
           Inl e \<Rightarrow> Inl e
         | Inr (year, g1) \<Rightarrow>
             (let g2 = g1\<lparr>files := filter (\<lambda>file. \<not> intermediate_file file) (files g1)\<rparr>
              in if year < 10001
                 then Inr (g2\<lparr>diagnostics := (diagnostics g2)(''years_to_stable'' \<mapsto> year + 100)\<rparr>)
                 else Inr g2))
      else Inr g)"

text \<open>
  An oracle for the examples below: the volume alternates between 1 and 2 from one
  100-year run to the next until the run stored under \<^verbatim>\<open>_9900\<close>, and is 3 from there on, so
  that the first stable pair of runs is the one at \<^verbatim>\<open>year = 9900\<close>.
\<close>

definition late_volumes :: "nat \<Rightarrow> nat \<Rightarrow> rat option" where
  "late_volumes ys out = Some (if 9900 \<le> out then 3 else if even (out div 100) then 1 else 2)"

section \<open>CandidateEvaluator: \<^verbatim>\<open>fitness_value\<close>\<close>

text \<open>
  One flowline of a model state, with the three attributes that \<^verbatim>\<open>fitness_value\<close> reads:
  the arrays \<^verbatim>\<open>surface_h\<close> and \<^verbatim>\<open>widths\<close> and the grid size \<^verbatim>\<open>nx\<close>. Floats are exact
  rationals here.
\<close>

record flowline =
  surface_h :: "rat list"
  widths :: "rat list"
  nx :: nat

text \<open>
  A flow model (\<^verbatim>\<open>FileModel\<close>, \<^verbatim>\<open>FluxBasedModel\<close>) as far as \<^verbatim>\<open>fitness_value\<close> uses it:
  \<open>m ye\<close> is \<^verbatim>\<open>m.fls\<close> after \<^verbatim>\<open>m.run_until(ye)\<close>; the function works on deep copies, so the
  caller's models are not changed.
\<close>

type_synonym flow_model = "nat \<Rightarrow> flowline list"

text \<open>
  \<^verbatim>\<open>np.sum(abs(a - b) ** 2)\<close> for two one-dimensional arrays, with numpy's broadcasting:
  arrays of equal length are subtracted element by element, an array of length one is
  stretched over the other, and any other pair of lengths raises \<^verbatim>\<open>ValueError\<close>.
\<close>

definition sum_sq_diff :: "rat list \<Rightarrow> rat list \<Rightarrow> exn + rat" where
  "sum_sq_diff a b =
     (if length a = length b then Inr (\<Sum>(x, y) \<leftarrow> zip a b. \<bar>x - y\<bar> ^ 2)
      else if length a = 1 then Inr (\<Sum>y \<leftarrow> b. \<bar>hd a - y\<bar> ^ 2)
      else if length b = 1 then Inr (\<Sum>x \<leftarrow> a. \<bar>x - hd b\<bar> ^ 2)
      else Inl ValueError)"

text \<open>
  The loop \<^verbatim>\<open>for i in range(len(model1.fls))\<close> of lines 655-659, over the flowlines of the
  first model from index \<open>i\<close> on: \<^verbatim>\<open>fls2[i]\<close> raises \<^verbatim>\<open>IndexError\<close> when the second model has
  fewer flowlines, and the grid-point count \<open>m\<close> adds up the first model's \<^verbatim>\<open>nx\<close>.
\<close>

fun fitness_loop :: "flowline list \<Rightarrow> flowline list \<Rightarrow> rat \<Rightarrow> nat \<Rightarrow> exn + (rat \<times> nat)" where
  "fitness_loop [] fls2 fitness m = Inr (fitness, m)"
| "fitness_loop (f1 # fls1) [] fitness m = Inl IndexError"
| "fitness_loop (f1 # fls1) (f2 # fls2) fitness m =
     (case sum_sq_diff (surface_h f1) (surface_h f2) of
        Inl e \<Rightarrow> Inl e
      | Inr s \<Rightarrow>
          (case sum_sq_diff (widths f1) (widths f2) of
             Inl e \<Rightarrow> Inl e
           | Inr w \<Rightarrow> fitness_loop fls1 fls2 (fitness + s + w) (m + nx f1)))"

text \<open>
  \<^verbatim>\<open>fitness_value(model1, model2, ye)\<close>. With no flowline at all the division
  \<^verbatim>\<open>fitness / m\<close> is \<^verbatim>\<open>0 / 0\<close> on Python integers and raises \<^verbatim>\<open>ZeroDivisionError\<close>; with
  flowlines whose \<^verbatim>\<open>nx\<close> are all zero numpy divides a float by zero and yields
  \<^verbatim>\<open>nan\<close> or \<^verbatim>\<open>inf\<close> with a warning. Both are the failure \<open>ZeroDivisionError\<close> here.
\<close>

definition fitness_value :: "flow_model \<Rightarrow> flow_model \<Rightarrow> nat \<Rightarrow> exn + rat" where
  "fitness_value model1 model2 ye =
     (case fitness_loop (model1 ye) (model2 ye) 0 0 of
        Inl e \<Rightarrow> Inl e
      | Inr (fitness, m) \<Rightarrow>
          if m = 0 then Inl ZeroDivisionError else Inr (fitness / of_nat m / 125))"

text \<open>
  Two states are on the same grid when they have the same number of flowlines and
  corresponding flowlines have the same \<^verbatim>\<open>nx\<close>, as all states of one glacier do.
\<close>

definition same_grid :: "flowline list \<Rightarrow> flowline list \<Rightarrow> bool" where
  "same_grid fls1 fls2 = list_all2 (\<lambda>f1 f2. nx f1 = nx f2) fls1 fls2"

section \<open>Python text and number helpers\<close>

text \<open>
  \<^verbatim>\<open>s.split(sep)\<close> for a non-empty separator: the pieces between the occurrences of
  \<^verbatim>\<open>sep\<close>, found from the left without overlap. \<open>split_from sep acc s\<close> scans \<open>s\<close> with the
  current piece, reversed, in \<open>acc\<close>. (Python raises \<^verbatim>\<open>ValueError\<close> for an empty separator;
  every separator in \<^verbatim>\<open>core.py\<close> is a non-empty literal.)
\<close>

function split_from :: "string \<Rightarrow> string \<Rightarrow> string \<Rightarrow> string list" where
  "split_from sep acc s =
     (if sep \<noteq> [] \<and> prefix sep s then rev acc # split_from sep [] (drop (length sep) s)
      else (case s of [] \<Rightarrow> [rev acc] | c # cs \<Rightarrow> split_from sep (c # acc) cs))"
  by pat_completeness auto
termination
  by (relation "measure (\<lambda>(sep, acc, s). length s)") (auto simp: prefix_def)

declare split_from.simps [simp del]

definition py_split :: "string \<Rightarrow> string \<Rightarrow> string list" where
  "py_split s sep = split_from sep [] s"

text \<open>\<^verbatim>\<open>sub in s\<close> for strings.\<close>

fun contains :: "string \<Rightarrow> string \<Rightarrow> bool" where
  "contains [] sub = (sub = [])"
| "contains (c # cs) sub = (prefix sub (c # cs) \<or> contains cs sub)"

text \<open>
  \<^verbatim>\<open>round(x, n)\<close>: to the nearest multiple of \<open>10^-n\<close>, an exact tie going to the even
  multiple. Python rounds the binary float, so that a decimal tie which is not exactly
  representable falls to one side; on the exact rationals used here every tie is exact.
\<close>

definition py_round :: "rat \<Rightarrow> nat \<Rightarrow> rat" where
  "py_round x n =
     (let y = x * 10 ^ n; f = \<lfloor>y\<rfloor>; r = y - of_int f
      in of_int (if r < 1 / 2 then f else if 1 / 2 < r then f + 1
                 else if even f then f else f + 1) / 10 ^ n)"

section \<open>MassBalanceCalibrator: \<^verbatim>\<open>_single_calibration_run\<close> and \<^verbatim>\<open>find_mb_offset\<close>\<close>

text \<open>
  What \<^verbatim>\<open>_single_calibration_run\<close> hands back: a \<^verbatim>\<open>FileModel\<close>, of which the calibrator
  reads \<^verbatim>\<open>area_km2_ts()[ye]\<close> only; the error text taken from the log; or an exception of
  its own when the log cannot be read.
\<close>

datatype calib_result = FileModel rat | ErrorMessage string | Raises

text \<open>
  The surroundings of one calibration run, for fixed \<^verbatim>\<open>ys\<close> and \<^verbatim>\<open>ye\<close>:
  \<open>cached_area b\<close> is the observation-year area of an existing, readable
  \<^verbatim>\<open>_calibration_past_<b>\<close> file; \<open>two_stage_area b\<close> is the observation-year area of the
  fresh two-stage simulation with offset \<open>b\<close>, \<open>None\<close> when anything in it raises;
  \<open>log_last_line\<close> is the last line of \<^verbatim>\<open>log.txt\<close>, \<open>None\<close> when there is none.
\<close>

record calib_env =
  cached_area :: "rat \<Rightarrow> rat option"
  two_stage_area :: "rat \<Rightarrow> rat option"
  log_last_line :: "string option"

definition single_calibration_run :: "calib_env \<Rightarrow> rat \<Rightarrow> calib_result" where
  "single_calibration_run env mb_offset =
     (case cached_area env mb_offset of
        Some area \<Rightarrow> FileModel area
      | None \<Rightarrow>
          (case two_stage_area env mb_offset of
             Some area \<Rightarrow> FileModel area
           | None \<Rightarrow>
               (case log_last_line env of
                  None \<Rightarrow> Raises
                | Some line \<Rightarrow> ErrorMessage (last (py_split line '';'')))))"

text \<open>
  The column \<^verbatim>\<open>area_diff\<close> holds a float or \<^verbatim>\<open>-np.inf\<close>. The three things the code does
  with it: \<^verbatim>\<open>abs(diff) < tol\<close>, \<^verbatim>\<open>diff < 0\<close>, and the comparison of two absolute values
  inside \<^verbatim>\<open>idxmin\<close>, where \<^verbatim>\<open>abs(-inf)\<close> is \<^verbatim>\<open>inf\<close>: a value like any other to pandas
  (only \<^verbatim>\<open>NaN\<close> is skipped), above every finite one.
\<close>

datatype area_diff = NegInf | Finite rat

fun abs_below :: "area_diff \<Rightarrow> rat \<Rightarrow> bool" where
  "abs_below NegInf tol = False"
| "abs_below (Finite d) tol = (\<bar>d\<bar> < tol)"

fun negative :: "area_diff \<Rightarrow> bool" where
  "negative NegInf = True"
| "negative (Finite d) = (d < 0)"

fun abs_less :: "area_diff \<Rightarrow> area_diff \<Rightarrow> bool" where
  "abs_less (Finite d) (Finite e) = (\<bar>d\<bar> < \<bar>e\<bar>)"
| "abs_less (Finite d) NegInf = True"
| "abs_less NegInf e = False"

text \<open>One row of the iteration log \<^verbatim>\<open>df\<close>.\<close>

record iter_row =
  mb_offset :: rat
  area_diff :: area_diff
  error :: string

text \<open>
  The \<^verbatim>\<open>while i < max_it\<close> loop of \<^verbatim>\<open>find_mb_offset\<close> with \<^verbatim>\<open>max_it = 15\<close>, from the loop
  head with counter \<open>i\<close>, bracket \<open>bounds\<close> and log \<open>df\<close>; \<open>sim\<close> is
  \<^verbatim>\<open>_single_calibration_run(gdir, _, ys, ye)\<close> and \<open>rgi_area\<close> is \<^verbatim>\<open>gdir.rgi_area_km2\<close>.
  \<open>area_difference\<close> is lines 217-224 (the pair \<^verbatim>\<open>diff\<close>, \<^verbatim>\<open>error\<close>, or the exception of the
  run), \<open>tolerance_met\<close> the test of line 230. The loop returns the counter, the bracket and
  the log at its exit: the counter is below 15 exactly when the loop was left by \<^verbatim>\<open>break\<close>.
\<close>

definition area_difference :: "(rat \<Rightarrow> calib_result) \<Rightarrow> rat \<Rightarrow> rat \<Rightarrow> (area_diff \<times> string) option" where
  "area_difference sim rgi_area mb =
     (case sim mb of
        FileModel area \<Rightarrow> Some (Finite (rgi_area - area), '''')
      | ErrorMessage ex_mod2 \<Rightarrow> Some (NegInf, last (py_split ex_mod2 '':''))
      | Raises \<Rightarrow> None)"

definition tolerance_met :: "rat \<times> rat \<Rightarrow> area_diff \<Rightarrow> bool" where
  "tolerance_met bounds diff \<longleftrightarrow>
     abs_below diff (1 / 10000) \<or> (snd bounds - fst bounds \<le> 1 / 2 \<and> abs_below diff (1 / 1000))"

function bisection ::
  "(rat \<Rightarrow> calib_result) \<Rightarrow> rat \<Rightarrow> nat \<Rightarrow> rat \<times> rat \<Rightarrow> iter_row list
     \<Rightarrow> exn + (nat \<times> (rat \<times> rat) \<times> iter_row list)" where
  "bisection sim rgi_area i bounds df =
     (if i < 15 then
        (let mb = py_round ((fst bounds + snd bounds) / 2) 2 in
         case area_difference sim rgi_area mb of
           None \<Rightarrow> Inl SimulationError
         | Some (diff, err) \<Rightarrow>
             (let df' = df @ [\<lparr>mb_offset = mb, area_diff = diff, error = err\<rparr>]
              in if tolerance_met bounds diff then Inr (i, bounds, df')
                 else if negative diff then bisection sim rgi_area (i + 1) (mb, snd bounds) df'
                 else bisection sim rgi_area (i + 1) (fst bounds, mb) df'))
      else Inr (i, bounds, df))"
  by pat_completeness auto
termination
  by (relation "measure (\<lambda>(sim, rgi_area, i, bounds, df). 15 - i)") auto

declare bisection.simps [simp del]

text \<open>
  \<^verbatim>\<open>df.iloc[df.area_diff.abs().idxmin()]\<close> on a log with first row \<open>best\<close> and further rows
  \<open>rows\<close>: the first row whose absolute area difference is the least. The index of the
  log is 0, 1, ..., so the label that \<^verbatim>\<open>idxmin\<close> returns is the position that \<^verbatim>\<open>iloc\<close>
  takes.
\<close>

fun best_row :: "iter_row \<Rightarrow> iter_row list \<Rightarrow> iter_row" where
  "best_row best [] = best"
| "best_row best (r # rows) =
     best_row (if abs_less (area_diff r) (area_diff best) then r else best) rows"

text \<open>
  The clean-up of lines 244-248 for one name of \<^verbatim>\<open>os.listdir(gdir.dir)\<close>; \<open>str_float\<close> is
  Python's \<^verbatim>\<open>str\<close> on floats, which is not modelled.
\<close>

definition calibration_leftover :: "(rat \<Rightarrow> string) \<Rightarrow> rat \<Rightarrow> string \<Rightarrow> bool" where
  "calibration_leftover str_float mb file \<longleftrightarrow>
     (startswith file ''model_geometry_calibration'' \<and> endswith file ''.nc''
        \<and> \<not> endswith file (''_'' @ str_float mb @ ''.nc''))
     \<or> (startswith file ''model_diagnostics_calibration'' \<and> endswith file ''.nc''
        \<and> \<not> endswith file (''_'' @ str_float mb @ ''.nc''))"

text \<open>
  What a call of \<^verbatim>\<open>find_mb_offset\<close> that reaches its end leaves behind: the loop counter
  and bracket at the loop exit, the log written to \<^verbatim>\<open>experiment_iteration.csv\<close>, the
  selected \<^verbatim>\<open>mb_offset\<close>, and the names left in the directory.
\<close>

record calibration =
  iterations :: nat
  bracket :: "rat \<times> rat"
  experiment_iteration :: "iter_row list"
  best_mb_offset :: rat
  files_left :: "string list"

text \<open>
  \<^verbatim>\<open>find_mb_offset(gdir, ys, a, b)\<close>. The whole body is inside \<^verbatim>\<open>try: ... except: pass\<close>, so
  an exception ends the call with nothing written: the result \<open>None\<close>. \<open>listing\<close> is what
  \<^verbatim>\<open>os.listdir(gdir.dir)\<close> returns at the clean-up.
\<close>

definition find_mb_offset ::
  "(rat \<Rightarrow> string) \<Rightarrow> (rat \<Rightarrow> calib_result) \<Rightarrow> rat \<Rightarrow> string list \<Rightarrow> rat \<Rightarrow> rat
     \<Rightarrow> calibration option" where
  "find_mb_offset str_float sim rgi_area listing a b =
     (case bisection sim rgi_area 0 (a, b) [] of
        Inl e \<Rightarrow> None
      | Inr (i, bounds, df) \<Rightarrow>
          (case df of
             [] \<Rightarrow> None
           | r # rows \<Rightarrow>
               (let mb = mb_offset (best_row r rows)
                in Some \<lparr>iterations = i, bracket = bounds, experiment_iteration = df,
                         best_mb_offset = mb,
                         files_left = filter (\<lambda>file. \<not> calibration_leftover str_float mb file)
                                        listing\<rparr>)))"

text \<open>
  A row of the log agrees with the simulation: its \<^verbatim>\<open>area_diff\<close> is what lines 217-224
  compute at its \<^verbatim>\<open>mb_offset\<close>.
\<close>

definition row_ok :: "(rat \<Rightarrow> calib_result) \<Rightarrow> rat \<Rightarrow> iter_row \<Rightarrow> bool" where
  "row_ok sim rgi_area r \<longleftrightarrow>
     (\<exists>err. area_difference sim rgi_area (mb_offset r) = Some (area_diff r, err))"

section \<open>The glacier directory as the generator, identifier and evaluator see it\<close>

text \<open>
  \<^verbatim>\<open>os.path.join(a, b)\<close> on POSIX paths.
\<close>

definition path_join :: "string \<Rightarrow> string \<Rightarrow> string" where
  "path_join a b =
     (if b \<noteq> [] \<and> hd b = CHR ''/'' then b
      else if a = [] \<or> last a = CHR ''/'' then a @ b
      else a @ ''/'' @ b)"

text \<open>
  What a stored model run gives when it is opened as a \<^verbatim>\<open>FileModel\<close>: the series
  \<^verbatim>\<open>volume_m3_ts()\<close> (position \<open>t\<close> is model year \<open>t\<close>), the flowlines after
  \<^verbatim>\<open>run_until(year)\<close>, and the scalars \<^verbatim>\<open>volume_km3\<close>, \<^verbatim>\<open>length_m\<close> and \<^verbatim>\<open>area_km2\<close> of the freshly
  opened model.
\<close>

record model_run =
  volume_m3_ts :: "rat list"
  fls_at :: "nat \<Rightarrow> flowline list"
  volume_km3 :: rat
  length_m :: rat
  area_km2 :: rat

text \<open>
  The model files on disk, by full path: a file that \<^verbatim>\<open>FileModel\<close> can open, or one that
  exists but makes \<^verbatim>\<open>FileModel\<close> raise.
\<close>

datatype model_file = Readable model_run | Unreadable

type_synonym model_files = "string \<rightharpoonup> model_file"

text \<open>
  Everything else that the three components read from their surroundings: the path
  \<^verbatim>\<open>gdir.dir\<close>; the pickled \<^verbatim>\<open>model_flowlines\<close> (\<open>None\<close>: reading it raises);
  \<^verbatim>\<open>years_to_stable\<close> of the diagnostics record (\<open>None\<close>: the lookup raises); the flow model's
  two tasks, which return the run they store or \<open>None\<close> when they raise,
  \<open>random_climate y0 mb_offset seed temp_bias nyears\<close> and
  \<open>from_climate_data ys ye mb_offset init_filesuffix init_yr\<close>; and Python's \<^verbatim>\<open>str\<close> and
  \<^verbatim>\<open>float\<close> on floats and their texts, which are not modelled (\<open>py_float\<close> is \<open>None\<close> where
  \<^verbatim>\<open>float\<close> raises \<^verbatim>\<open>ValueError\<close>).
\<close>

record world =
  dir :: string
  model_flowlines :: "flowline list option"
  years_to_stable :: "nat option"
  random_climate :: "nat \<Rightarrow> rat \<Rightarrow> nat \<Rightarrow> rat \<Rightarrow> nat \<Rightarrow> model_run option"
  from_climate_data :: "nat \<Rightarrow> nat \<Rightarrow> rat \<Rightarrow> string \<Rightarrow> nat \<Rightarrow> model_run option"
  py_str :: "rat \<Rightarrow> string"
  py_float :: "string \<Rightarrow> rat option"

text \<open>
  \<^verbatim>\<open>gdir.get_filepath('model_geometry', filesuffix=s)\<close> for a non-empty suffix, and the path
  of the same file once it has been moved into the directory of the reference year.
\<close>

definition get_filepath :: "world \<Rightarrow> string \<Rightarrow> string" where
  "get_filepath w filesuffix = path_join (dir w) (''model_geometry'' @ filesuffix @ ''.nc'')"

definition year_path :: "world \<Rightarrow> nat \<Rightarrow> string \<Rightarrow> string" where
  "year_path w y0 filesuffix =
     path_join (path_join (dir w) (str_nat y0)) (''model_geometry'' @ filesuffix @ ''.nc'')"

section \<open>CandidateGenerator: \<^verbatim>\<open>_run_random_task\<close>, \<^verbatim>\<open>_run_random_parallel\<close>, \<^verbatim>\<open>generation\<close>\<close>

text \<open>The output suffix that \<^verbatim>\<open>_run_random_task\<close> builds (line 285).\<close>

definition random_suffix :: "world \<Rightarrow> nat \<Rightarrow> nat \<Rightarrow> rat \<Rightarrow> string" where
  "random_suffix w y0 seed temp_bias =
     str_nat y0 @ ''_random_'' @ str_nat seed @ ''_'' @ py_str w temp_bias"

text \<open>
  \<^verbatim>\<open>_run_random_task(tupel, gdir, y0, mb_offset)\<close>: the path returned (\<open>None\<close> for \<^verbatim>\<open>None\<close>)
  and the files afterwards. Reading the flowlines and \<^verbatim>\<open>years_to_stable\<close> is outside the
  \<^verbatim>\<open>try\<close>, so that their exceptions escape. A run that succeeds stores its result where
  \<^verbatim>\<open>get_filepath\<close> says.
\<close>

definition run_random_task ::
  "world \<Rightarrow> model_files \<Rightarrow> nat \<Rightarrow> rat \<Rightarrow> nat \<times> rat \<Rightarrow> exn + (string option \<times> model_files)" where
  "run_random_task w fs y0 mb tupel =
     (let seed = fst tupel; temp_bias = snd tupel in
      case model_flowlines w of
        None \<Rightarrow> Inl FileError
      | Some fls \<Rightarrow>
          (let suffix = random_suffix w y0 seed temp_bias;
               path = year_path w y0 suffix
           in case fs path of
                None \<Rightarrow>
                  (case years_to_stable w of
                     None \<Rightarrow> Inl KeyError
                   | Some year \<Rightarrow>
                       (case random_climate w y0 mb seed temp_bias year of
                          Some run \<Rightarrow> Inr (Some path, fs(get_filepath w suffix \<mapsto> Readable run))
                        | None \<Rightarrow> Inr (None, fs)))
              | Some (Readable run) \<Rightarrow> Inr (Some path, fs)
              | Some Unreadable \<Rightarrow> Inr (None, fs)))"

text \<open>
  \<^verbatim>\<open>pool.map\<close> over the list of tuples, one task after the other (the tasks write different
  files); an exception of a task is raised by \<^verbatim>\<open>pool.map\<close>.
\<close>

fun run_random_tasks ::
  "world \<Rightarrow> model_files \<Rightarrow> nat \<Rightarrow> rat \<Rightarrow> (nat \<times> rat) list \<Rightarrow> exn + (string option list \<times> model_files)" where
  "run_random_tasks w fs y0 mb [] = Inr ([], fs)"
| "run_random_tasks w fs y0 mb (tupel # rest) =
     (case run_random_task w fs y0 mb tupel of
        Inl e \<Rightarrow> Inl e
      | Inr (rp, fs1) \<Rightarrow>
          (case run_random_tasks w fs1 y0 mb rest of
             Inl e \<Rightarrow> Inl e
           | Inr (paths, fs2) \<Rightarrow> Inr (rp # paths, fs2)))"

text \<open>One row of the ensemble table \<^verbatim>\<open>random_run_list\<close>.\<close>

record member =
  seed :: string
  temp_bias :: rat
  suffix' :: string

text \<open>
  Lines 269-273: the row that \<^verbatim>\<open>_run_random_parallel\<close> reads off a returned path.
  \<^verbatim>\<open>[-1]\<close> of a split is its last piece; \<^verbatim>\<open>[-2]\<close> raises \<^verbatim>\<open>IndexError\<close> when there is one
  piece only.
\<close>

definition path_row :: "world \<Rightarrow> nat \<Rightarrow> string \<Rightarrow> exn + member" where
  "path_row w y0 rp =
     (let pieces = py_split (hd (py_split rp ''.nc'')) ''_'';
          temp_bias = last pieces
      in if length pieces < 2 then Inl IndexError
         else (let seed = pieces ! (length pieces - 2);
                   suffix = str_nat y0 @ ''_random_'' @ seed @ ''_'' @ temp_bias
               in case py_float w temp_bias of
                    None \<Rightarrow> Inl ValueError
                  | Some b \<Rightarrow> Inr \<lparr>seed = seed, temp_bias = b, suffix' = suffix\<rparr>))"

fun path_rows :: "world \<Rightarrow> nat \<Rightarrow> string option list \<Rightarrow> exn + member list" where
  "path_rows w y0 [] = Inr []"
| "path_rows w y0 (None # paths) = path_rows w y0 paths"
| "path_rows w y0 (Some rp # paths) =
     (case path_row w y0 rp of
        Inl e \<Rightarrow> Inl e
      | Inr v \<Rightarrow> (case path_rows w y0 paths of Inl e \<Rightarrow> Inl e | Inr rows \<Rightarrow> Inr (v # rows)))"

text \<open>\<^verbatim>\<open>_run_random_parallel(gdir, y0, list, mb_offset)\<close>.\<close>

definition run_random_parallel ::
  "world \<Rightarrow> model_files \<Rightarrow> nat \<Rightarrow> (nat \<times> rat) list \<Rightarrow> rat \<Rightarrow> exn + (member list \<times> model_files)" where
  "run_random_parallel w fs y0 list mb =
     (case run_random_tasks w fs y0 mb list of
        Inl e \<Rightarrow> Inl e
      | Inr (paths, fs1) \<Rightarrow>
          (case path_rows w y0 paths of
             Inl e \<Rightarrow> Inl e
           | Inr random_run_list \<Rightarrow> Inr (random_run_list, fs1)))"

text \<open>
  \<^verbatim>\<open>np.arange(start, stop, step)\<close> by its documented length
  \<^verbatim>\<open>ceil((stop - start) / step)\<close>, on exact rationals (in floating point the quotient can
  come out just above an integer, which adds one element), and the list of tuples
  \<^verbatim>\<open>[((i + k) ** 2, b.round(3)) for i, b in enumerate(np.arange(start, stop, 0.05))]\<close> that
  \<^verbatim>\<open>generation\<close> builds three times, with \<open>k = 0\<close> and then \<open>k = n + 1\<close>.
\<close>

definition arange :: "rat \<Rightarrow> rat \<Rightarrow> rat \<Rightarrow> rat list" where
  "arange start stop step =
     map (\<lambda>i. start + of_nat i * step) [0 ..< nat \<lceil>(stop - start) / step\<rceil>]"

definition bias_tuples :: "rat \<Rightarrow> rat \<Rightarrow> nat \<Rightarrow> (nat \<times> rat) list" where
  "bias_tuples start stop k =
     map (\<lambda>(i, b). ((i + k) ^ 2, py_round b 3)) (enumerate 0 (arange start stop (1 / 20)))"

text \<open>
  Line 512, the test that decides whether the biases from -5 up to -3 are run as well:
  \<^verbatim>\<open>random_run_list['temp_bias'].min() == -3\<close>, on a table that is not empty.
\<close>

definition extends_below :: "member list \<Rightarrow> bool" where
  "extends_below random_run_list \<longleftrightarrow> Min (set (map temp_bias random_run_list)) = - 3"

text \<open>
  \<^verbatim>\<open>idxmax\<close> of the column \<^verbatim>\<open>temp_bias\<close>: the first row with the largest bias.
\<close>

fun max_bias_row :: "member \<Rightarrow> member list \<Rightarrow> member" where
  "max_bias_row best [] = best"
| "max_bias_row best (r # rows) = max_bias_row (if temp_bias best < temp_bias r then r else best) rows"

text \<open>
  Lines 522-527 on the member of largest bias: open its file, in \<^verbatim>\<open>gdir.dir\<close> or else in the
  directory of the year, and test \<^verbatim>\<open>not fmod.volume_m3_ts().min() == 0\<close>. The minimum of an
  empty series is \<^verbatim>\<open>nan\<close>, which is not 0.
\<close>

definition ice_remains :: "world \<Rightarrow> model_files \<Rightarrow> nat \<Rightarrow> string \<Rightarrow> exn + bool" where
  "ice_remains w fs y0 max_suffix =
     (let p = (if fs (get_filepath w max_suffix) \<noteq> None then get_filepath w max_suffix
               else year_path w y0 max_suffix)
      in case fs p of
           Some (Readable fmod) \<Rightarrow>
             Inr (volume_m3_ts fmod = [] \<or> Min (set (volume_m3_ts fmod)) \<noteq> 0)
         | _ \<Rightarrow> Inl FileError)"

text \<open>
  \<^verbatim>\<open>generation(gdir, y0, mb_offset)\<close>. An empty first table has no column \<^verbatim>\<open>temp_bias\<close>
  (\<^verbatim>\<open>KeyError\<close>). The final \<^verbatim>\<open>sort_values(by='temp_bias')\<close> is taken as a stable sort.
\<close>

definition generation :: "world \<Rightarrow> model_files \<Rightarrow> nat \<Rightarrow> rat \<Rightarrow> exn + (member list \<times> model_files)" where
  "generation w fs y0 mb =
     (case run_random_parallel w fs y0 (bias_tuples (- 3) 2 0) mb of
        Inl e \<Rightarrow> Inl e
      | Inr (list1, fs1) \<Rightarrow>
          if list1 = [] then Inl KeyError
          else
            (case (if extends_below list1
                   then (case run_random_parallel w fs1 y0
                                 (bias_tuples (- 5) (- 3) (length list1 + 1)) mb of
                           Inl e \<Rightarrow> Inl e
                         | Inr (extra, fs2) \<Rightarrow> Inr (list1 @ extra, fs2))
                   else Inr (list1, fs1)) of
               Inl e \<Rightarrow> Inl e
             | Inr (list2, fs2) \<Rightarrow>
                 (case ice_remains w fs2 y0 (suffix' (max_bias_row (hd list2) (tl list2))) of
                    Inl e \<Rightarrow> Inl e
                  | Inr remains \<Rightarrow>
                      (case (if remains
                             then (case run_random_parallel w fs2 y0
                                           (bias_tuples (41 / 20) 3 (length list2 + 1)) mb of
                                     Inl e \<Rightarrow> Inl e
                                   | Inr (extra, fs3) \<Rightarrow> Inr (list2 @ extra, fs3))
                             else Inr (list2, fs2)) of
                         Inl e \<Rightarrow> Inl e
                       | Inr (list3, fs3) \<Rightarrow> Inr (sort_key temp_bias list3, fs3)))))"

text \<open>
  Python's \<^verbatim>\<open>str\<close> and \<^verbatim>\<open>float\<close> for the examples: on the floats with at most three decimals
  that the generator uses, \<^verbatim>\<open>str\<close> gives the sign, the integer part, a point and the
  decimals without trailing zeros (at least one digit), and \<^verbatim>\<open>float\<close> reads such a text
  back.
\<close>

definition str_decimal :: "rat \<Rightarrow> string" where
  "str_decimal x =
     (let m = nat \<lfloor>\<bar>x\<bar> * 1000\<rfloor>;
          d3 = [digit_char (m mod 1000 div 100), digit_char (m mod 100 div 10), digit_char (m mod 10)];
          frac = rev (dropWhile (\<lambda>c. c = CHR ''0'') (rev d3))
      in (if x < 0 then ''-'' else '''') @ str_nat (m div 1000) @ ''.''
           @ (if frac = [] then ''0'' else frac))"

definition digit_value :: "char \<Rightarrow> nat option" where
  "digit_value c = map_of (zip ''0123456789'' [0 ..< 10]) c"

fun digits_value :: "string \<Rightarrow> nat \<Rightarrow> nat option" where
  "digits_value [] acc = Some acc"
| "digits_value (c # cs) acc =
     (case digit_value c of None \<Rightarrow> None | Some d \<Rightarrow> digits_value cs (10 * acc + d))"

definition float_decimal :: "string \<Rightarrow> rat option" where
  "float_decimal s =
     (let neg = (s \<noteq> [] \<and> hd s = CHR ''-'');
          body = (if neg then tl s else s);
          ip = takeWhile (\<lambda>c. c \<noteq> CHR ''.'') body;
          fp = drop (length ip + 1) body
      in if ip = [] \<or> fp = [] \<or> length ip = length body then None
         else (case (digits_value ip 0, digits_value fp 0) of
                 (Some i, Some f) \<Rightarrow>
                   Some ((if neg then - 1 else 1) * (of_nat i + of_nat f / 10 ^ length fp))
               | _ \<Rightarrow> None))"

text \<open>
  What the claims about the ensemble table say, in their own words. \<open>float_text_ok w b\<close>
  collects what Python guarantees of \<^verbatim>\<open>str\<close> and \<^verbatim>\<open>float\<close> on a finite float \<open>b\<close>:
  \<^verbatim>\<open>float(str(b)) == b\<close>, and \<^verbatim>\<open>str(b)\<close> holds no underscore and no \<^verbatim>\<open>.nc\<close>. \<open>task_rows\<close>
  lists, for the requested tuples and the paths their tasks returned, one row per
  successful task: the requested seed and bias, and the suffix the task wrote under.
\<close>

definition float_text_ok :: "world \<Rightarrow> rat \<Rightarrow> bool" where
  "float_text_ok w b \<longleftrightarrow>
     py_float w (py_str w b) = Some b \<and> CHR ''_'' \<notin> set (py_str w b)
     \<and> \<not> contains (py_str w b) ''.nc''"

fun task_rows :: "world \<Rightarrow> nat \<Rightarrow> (nat \<times> rat) list \<Rightarrow> string option list \<Rightarrow> member list" where
  "task_rows w y0 (t # ts) (Some rp # paths) =
     \<lparr>seed = str_nat (fst t), temp_bias = snd t, suffix' = random_suffix w y0 (fst t) (snd t)\<rparr>
       # task_rows w y0 ts paths"
| "task_rows w y0 (t # ts) (None # paths) = task_rows w y0 ts paths"
| "task_rows w y0 ts paths = []"

text \<open>
  A world for the examples: the glacier directory \<open>d\<close>, flowlines and
  \<^verbatim>\<open>years_to_stable = 300\<close> present, and a flow model whose random-climate run succeeds
  exactly for the temperature biases in \<open>ok\<close>, each time with a glacier that vanishes
  (volumes 5, 0, 0).
\<close>

definition vanishing_run :: model_run where
  "vanishing_run =
     \<lparr>volume_m3_ts = [5, 0, 0], fls_at = (\<lambda>year. []), volume_km3 = 0, length_m = 0, area_km2 = 0\<rparr>"

definition example_world :: "string \<Rightarrow> rat list \<Rightarrow> world" where
  "example_world d ok =
     \<lparr>dir = d, model_flowlines = Some [], years_to_stable = Some 300,
      random_climate = (\<lambda>y0 mb sd b nyears. if b \<in> set ok then Some vanishing_run else None),
      from_climate_data = (\<lambda>ys ye mb init_filesuffix init_yr. None),
      py_str = str_decimal, py_float = float_decimal\<rparr>"

section \<open>Properties of the stabilization prober\<close>

lemma run_random_climate_diagnostics:
  "run_random_climate vol ys out g = Inr g' \<Longrightarrow> diagnostics g' = diagnostics g"
  by (auto simp: run_random_climate_def split: option.splits)

text \<open>One pass of the loop, read off a run that returned.\<close>

lemma stable_loop_unfold:
  assumes "year < 10001" "stable_loop vol ys year g = Inr (y', g')"
  obtains g1 g2 v1 v2 where
    "(if year = 100 then run_random_climate vol ys year g else Inr g) = Inr g1"
    "run_random_climate vol ys (year + 100) g1 = Inr g2"
    "vol ys year = Some v1" "vol ys (year + 100) = Some v2"
    "(if volume_stable v1 v2 then Inr (year + 100, g2)
      else stable_loop vol ys (year + 100) g2) = Inr (y', g')"
  using assms by (subst (asm) stable_loop.simps) (auto split: sum.splits option.splits if_splits)

text \<open>
  From a loop head at a multiple of 100 not above 10000, the loop leaves \<^verbatim>\<open>year\<close> at a larger
  multiple of 100, at most 10100, and never touches the diagnostics record.
\<close>

lemma stable_loop_year:
  "stable_loop vol ys year g = Inr (y', g') \<Longrightarrow> 100 dvd year \<Longrightarrow> year \<le> 10000 \<Longrightarrow>
     100 dvd y' \<and> year + 100 \<le> y' \<and> y' \<le> 10100 \<and> diagnostics g' = diagnostics g"
proof (induction vol ys year g rule: stable_loop.induct)
  case (1 vol ys year g)
  from "1.prems"(3) have lt: "year < 10001" by simp
  from lt "1.prems"(1) obtain g1 g2 v1 v2 where
    g1: "(if year = 100 then run_random_climate vol ys year g else Inr g) = Inr g1" and
    g2: "run_random_climate vol ys (year + 100) g1 = Inr g2" and
    v1: "vol ys year = Some v1" and v2: "vol ys (year + 100) = Some v2" and
    res: "(if volume_stable v1 v2 then Inr (year + 100, g2)
            else stable_loop vol ys (year + 100) g2) = Inr (y', g')"
    by (rule stable_loop_unfold)
  have d1: "diagnostics g1 = diagnostics g"
    using g1 by (auto dest: run_random_climate_diagnostics split: if_splits)
  have d2: "diagnostics g2 = diagnostics g"
    using g2 d1 by (auto dest: run_random_climate_diagnostics)
  show ?case
  proof (cases "volume_stable v1 v2")
    case True
    with res "1.prems" d2 show ?thesis by auto
  next
    case False
    with res have rec: "stable_loop vol ys (year + 100) g2 = Inr (y', g')" by simp
    show ?thesis
    proof (cases "year + 100 \<le> 10000")
      case True
      have "100 dvd y' \<and> year + 100 + 100 \<le> y' \<and> y' \<le> 10100 \<and> diagnostics g' = diagnostics g2"
        using "1.IH"[OF lt g1 g2 v1 v2 False rec] "1.prems"(2) True by simp
      with d2 show ?thesis by simp
    next
      case False
      then have "\<not> year + 100 < 10001" by simp
      with rec have "y' = year + 100 \<and> g' = g2"
        by (subst (asm) stable_loop.simps) simp
      with "1.prems" d2 show ?thesis by auto
    qed
  qed
qed

text \<open>
  Claim C2, as the code has it. Whenever \<^verbatim>\<open>_single_time_to_stable\<close> returns and has put a
  value \<open>v\<close> under \<^verbatim>\<open>years_to_stable\<close> that was not there before, \<open>v\<close> is a multiple of 100,
  at least 200 and at most 10100. The upper bound is 10100 and not 10000: the loop still
  runs at \<^verbatim>\<open>year = 9900\<close>, leaves with \<^verbatim>\<open>year = 10000\<close>, which passes \<^verbatim>\<open>year < 10001\<close>, and
  the value written is \<^verbatim>\<open>year + 100\<close>.
\<close>

theorem years_to_stable_range:
  assumes "single_time_to_stable vol g ys = Inr g'"
    and "diagnostics g' ''years_to_stable'' = Some v"
    and "diagnostics g ''years_to_stable'' \<noteq> Some v"
  shows "100 dvd v \<and> 200 \<le> v \<and> v \<le> 10100"
proof -
  from assms have fl: "''model_flowlines.pkl'' \<in> set (files g)"
    by (auto simp: single_time_to_stable_def split: if_splits)
  then obtain year g1 where loop: "stable_loop vol ys 100 g = Inr (year, g1)"
    using assms(1) by (auto simp: single_time_to_stable_def split: sum.splits)
  have yr: "100 dvd year \<and> 200 \<le> year \<and> year \<le> 10100 \<and> diagnostics g1 = diagnostics g"
    using stable_loop_year[OF loop] by simp
  have "year < 10001 \<and> v = year + 100"
    using assms fl loop yr by (auto simp: single_time_to_stable_def Let_def split: if_splits)
  with yr show ?thesis by auto
qed

text \<open>
  A run of the theorem: a glacier whose volume never changes is stable after the first two
  runs, the loop leaves with \<^verbatim>\<open>year = 200\<close> and 300 is recorded.
\<close>

theorem years_to_stable_range_witness:
  "\<exists>g'. single_time_to_stable (\<lambda>ys out. Some 1)
          \<lparr>files = [''model_flowlines.pkl''], diagnostics = Map.empty, sim_runs = 0\<rparr> 1850 = Inr g'
        \<and> diagnostics g' ''years_to_stable'' = Some 300
        \<and> (100::nat) dvd 300 \<and> (200::nat) \<le> 300 \<and> (300::nat) \<le> 10100"
proof -
  let ?g = "\<lparr>files = [''model_flowlines.pkl''], diagnostics = Map.empty, sim_runs = 0\<rparr>"
  let ?vol = "\<lambda>(ys::nat) (out::nat). Some (1::rat)"
  have "\<exists>g1. stable_loop ?vol 1850 100 ?g = Inr (200, g1)"
    by (subst stable_loop.simps) (simp add: run_random_climate_def volume_stable_def)
  then obtain g1 where loop: "stable_loop ?vol 1850 100 ?g = Inr (200, g1)" ..
  have "\<exists>g'. single_time_to_stable ?vol ?g 1850 = Inr g'
          \<and> diagnostics g' ''years_to_stable'' = Some 300"
    using loop by (simp add: single_time_to_stable_def Let_def)
  then obtain g' where g': "single_time_to_stable ?vol ?g 1850 = Inr g'"
    "diagnostics g' ''years_to_stable'' = Some 300" by blast
  have "diagnostics ?g ''years_to_stable'' \<noteq> Some 300" by simp
  from years_to_stable_range[OF g' this] g' show ?thesis by blast
qed

text \<open>
  With \<open>late_volumes\<close> every pass up to \<^verbatim>\<open>year = 9800\<close> sees a volume change of at least
  50 percent, and the pass at \<^verbatim>\<open>year = 9900\<close> sees none: the loop leaves with
  \<^verbatim>\<open>year = 10000\<close>.
\<close>

lemma late_volumes_loop:
  "100 dvd year \<Longrightarrow> 100 \<le> year \<Longrightarrow> year \<le> 9900 \<Longrightarrow>
     \<exists>g'. stable_loop late_volumes ys year g = Inr (10000, g')"
proof (induction late_volumes ys year g rule: stable_loop.induct)
  case (1 ys year g)
  show ?case
  proof (cases "year = 9900")
    case True
    then show ?thesis
      by (subst stable_loop.simps)
         (simp add: late_volumes_def run_random_climate_def volume_stable_def)
  next
    case False
    from "1.prems"(1) obtain k where k: "year = 100 * k" by (rule dvdE)
    with False "1.prems" have le: "year \<le> 9800" by auto
    then have lt: "year < 10001" by simp
    have "\<exists>g1. (if year = 100 then run_random_climate late_volumes ys year g else Inr g) = Inr g1"
      by (simp add: run_random_climate_def late_volumes_def)
    then obtain g1 where
      g1: "(if year = 100 then run_random_climate late_volumes ys year g else Inr g) = Inr g1" ..
    have "\<exists>g2. run_random_climate late_volumes ys (year + 100) g1 = Inr g2"
      by (simp add: run_random_climate_def late_volumes_def)
    then obtain g2 where g2: "run_random_climate late_volumes ys (year + 100) g1 = Inr g2" ..
    define v1 :: rat where "v1 = (if even k then 1 else 2)"
    define v2 :: rat where "v2 = (if year = 9800 then 3 else if even k then 2 else 1)"
    have v1: "late_volumes ys year = Some v1"
      using le k by (simp add: late_volumes_def v1_def)
    have v2: "late_volumes ys (year + 100) = Some v2"
      using le k by (auto simp: late_volumes_def v2_def)
    have ns: "\<not> volume_stable v1 v2"
      by (simp add: volume_stable_def v1_def v2_def)
    have "stable_loop late_volumes ys year g = stable_loop late_volumes ys (year + 100) g2"
      by (subst stable_loop.simps) (simp add: g1 g2 v1 v2 ns lt)
    moreover have "\<exists>g'. stable_loop late_volumes ys (year + 100) g2 = Inr (10000, g')"
      using "1.hyps"[OF lt g1 g2 v1 v2 ns] "1.prems" le by simp
    ultimately show ?thesis by simp
  qed
qed

text \<open>
  Claim C2 as the specification words it (at most 10000) fails: for the glacier of
  \<open>late_volumes\<close> the prober records 10100.
\<close>

theorem years_to_stable_above_10000:
  "\<exists>g'. single_time_to_stable late_volumes
          \<lparr>files = [''model_flowlines.pkl''], diagnostics = Map.empty, sim_runs = 0\<rparr> 1850 = Inr g'
        \<and> diagnostics g' ''years_to_stable'' = Some 10100 \<and> \<not> (10100 :: nat) \<le> 10000"
proof -
  let ?g = "\<lparr>files = [''model_flowlines.pkl''], diagnostics = Map.empty, sim_runs = 0\<rparr>"
  obtain g1 where "stable_loop late_volumes 1850 100 ?g = Inr (10000, g1)"
    using late_volumes_loop[of 100 1850 ?g] by auto
  then show ?thesis
    by (simp add: single_time_to_stable_def Let_def)
qed

text \<open>
  Claim C10. Without \<^verbatim>\<open>model_flowlines.pkl\<close> in the glacier directory,
  \<^verbatim>\<open>_single_time_to_stable\<close> returns the directory as it found it: the same files, the same
  diagnostics record, and no simulation started.
\<close>

theorem missing_flowlines_noop:
  "''model_flowlines.pkl'' \<notin> set (files g) \<Longrightarrow> single_time_to_stable vol g ys = Inr g"
  by (simp add: single_time_to_stable_def)

theorem missing_flowlines_noop_witness:
  "single_time_to_stable (\<lambda>ys out. Some 1)
     \<lparr>files = [''diagnostics.json'', ''model_geometry_100.nc''],
      diagnostics = Map.empty, sim_runs = 0\<rparr> 1850
   = Inr \<lparr>files = [''diagnostics.json'', ''model_geometry_100.nc''],
          diagnostics = Map.empty, sim_runs = 0\<rparr>"
  using missing_flowlines_noop[of "\<lparr>files = [''diagnostics.json'', ''model_geometry_100.nc''],
      diagnostics = Map.empty, sim_runs = 0\<rparr>" "\<lambda>ys out. Some 1" 1850]
  by simp

section \<open>Properties of the fitness function\<close>

text \<open>The sum of squared differences does not depend on the order of its arguments.\<close>

lemma sum_sq_diff_commute: "sum_sq_diff a b = sum_sq_diff b a"
proof -
  have "(\<Sum>(x, y) \<leftarrow> zip a b. \<bar>x - y\<bar> ^ 2) = (\<Sum>(x, y) \<leftarrow> zip b a. \<bar>x - y\<bar> ^ 2)"
    if "length a = length b"
    using that by (induction a b rule: list_induct2) (simp_all add: power2_commute)
  moreover have "(\<Sum>y \<leftarrow> b. \<bar>c - y\<bar> ^ 2) = (\<Sum>x \<leftarrow> b. \<bar>x - c\<bar> ^ 2)" for c :: rat and b
    by (simp add: power2_commute)
  ultimately show ?thesis
    by (auto simp: sum_sq_diff_def)
qed

lemma fitness_loop_swap:
  "list_all2 (\<lambda>f1 f2. nx f1 = nx f2) fls1 fls2 \<Longrightarrow>
     fitness_loop fls1 fls2 fitness m = fitness_loop fls2 fls1 fitness m"
proof (induction fls1 fls2 arbitrary: fitness m rule: list_all2_induct)
  case Nil
  show ?case by simp
next
  case (Cons f1 fls1 f2 fls2)
  then show ?case
    by (simp add: sum_sq_diff_commute[of "surface_h f1"] sum_sq_diff_commute[of "widths f1"]
             split: sum.splits)
qed




section \<open>Properties of the mass-balance calibrator\<close>

text \<open>The loop of \<^verbatim>\<open>find_mb_offset\<close>, one pass at a time.\<close>

lemma bisection_done: "\<not> i < 15 \<Longrightarrow> bisection sim rgi_area i bounds df = Inr (i, bounds, df)"
  by (subst bisection.simps) simp

lemma bisection_raises:
  "i < 15 \<Longrightarrow> area_difference sim rgi_area (py_round ((fst bounds + snd bounds) / 2) 2) = None \<Longrightarrow>
     bisection sim rgi_area i bounds df = Inl SimulationError"
  by (subst bisection.simps) (simp add: Let_def)

lemma bisection_step:
  "i < 15 \<Longrightarrow> mb = py_round ((fst bounds + snd bounds) / 2) 2 \<Longrightarrow>
   area_difference sim rgi_area mb = Some (diff, err) \<Longrightarrow>
   row = \<lparr>mb_offset = mb, area_diff = diff, error = err\<rparr> \<Longrightarrow>
     bisection sim rgi_area i bounds df =
       (if tolerance_met bounds diff then Inr (i, bounds, df @ [row])
        else if negative diff then bisection sim rgi_area (Suc i) (mb, snd bounds) (df @ [row])
        else bisection sim rgi_area (Suc i) (fst bounds, mb) (df @ [row]))"
  by (subst bisection.simps) (simp add: Let_def)

text \<open>
  What holds at the loop exit: at most 15 passes were made, each appended one row that
  agrees with the simulation, and a counter below 15 means that the last row met the
  stopping test on the bracket returned.
\<close>

lemma bisection_exit:
  "bisection sim rgi_area i bounds df = Inr (i', bounds', df') \<Longrightarrow>
     i' \<le> max i 15 \<and>
     (\<exists>new. df' = df @ new \<and> (\<forall>r \<in> set new. row_ok sim rgi_area r)
        \<and> length new \<le> 15 - i
        \<and> (i < 15 \<longrightarrow> new \<noteq> [])
        \<and> (i' < 15 \<longrightarrow> new \<noteq> [] \<and> tolerance_met bounds' (area_diff (last new))))"
proof (induction "15 - i" arbitrary: i bounds df)
  case 0
  then have "\<not> i < 15" by simp
  with "0.prems" show ?case by (simp add: bisection_done)
next
  case (Suc k)
  then have lt: "i < 15" by simp
  define mb where "mb = py_round ((fst bounds + snd bounds) / 2) 2"
  from Suc.prems lt obtain diff err where
    ad: "area_difference sim rgi_area mb = Some (diff, err)"
    by (cases "area_difference sim rgi_area mb") (auto simp: bisection_raises mb_def)
  define row where "row = \<lparr>mb_offset = mb, area_diff = diff, error = err\<rparr>"
  have rok: "row_ok sim rgi_area row"
    using ad by (auto simp: row_ok_def row_def)
  note step = bisection_step[OF lt mb_def ad row_def, of df]
  show ?case
  proof (cases "tolerance_met bounds diff")
    case True
    with Suc.prems step have "i' = i" "bounds' = bounds" "df' = df @ [row]" by simp_all
    with lt True rok show ?thesis by (auto simp: row_def)
  next
    case False
    define nb where "nb = (if negative diff then (mb, snd bounds) else (fst bounds, mb))"
    from False Suc.prems step
    have rec: "bisection sim rgi_area (Suc i) nb (df @ [row]) = Inr (i', bounds', df')"
      by (simp add: nb_def split: if_splits)
    have k: "k = 15 - (Suc i)" using Suc.hyps(2) by simp
    from Suc.hyps(1)[OF k rec] obtain new where
      new: "i' \<le> max (Suc i) 15" "df' = (df @ [row]) @ new" "\<forall>r \<in> set new. row_ok sim rgi_area r"
        "length new \<le> 15 - (Suc i)"
        "i' < 15 \<longrightarrow> new \<noteq> [] \<and> tolerance_met bounds' (area_diff (last new))"
      by blast
    have "df' = df @ (row # new)" using new(2) by simp
    moreover have "\<forall>r \<in> set (row # new). row_ok sim rgi_area r" using new(3) rok by simp
    moreover have "length (row # new) \<le> 15 - i" using new(4) lt by simp
    moreover have "i' < 15 \<longrightarrow> tolerance_met bounds' (area_diff (last (row # new)))"
      using new(5) by simp
    moreover have "i' \<le> max i 15" using new(1) lt by simp
    ultimately show ?thesis by (intro conjI exI[of _ "row # new"]) simp_all
  qed
qed


text \<open>The loop runs to its end when no run raises.\<close>

lemma bisection_returns:
  "\<forall>m. sim m \<noteq> Raises \<Longrightarrow> \<exists>res. bisection sim rgi_area i bounds df = Inr res"
proof (induction "15 - i" arbitrary: i bounds df)
  case 0
  then have "\<not> i < 15" by simp
  then show ?case by (simp add: bisection_done)
next
  case (Suc k)
  then have lt: "i < 15" by simp
  define mb where "mb = py_round ((fst bounds + snd bounds) / 2) 2"
  from Suc.prems obtain diff err where
    ad: "area_difference sim rgi_area mb = Some (diff, err)"
    by (cases "sim mb") (auto simp: area_difference_def)
  have k: "k = 15 - Suc i" using Suc.hyps(2) by simp
  show ?case
    unfolding bisection_step[OF lt mb_def ad refl]
    using Suc.hyps(1)[OF k Suc.prems] by simp
qed

text \<open>The order that \<open>abs_less\<close> compares by, and the row that \<open>best_row\<close> picks.\<close>

lemma abs_less_irrefl: "\<not> abs_less d d"
  by (cases d) simp_all

lemma abs_less_trans': "abs_less r b \<Longrightarrow> \<not> abs_less d b \<Longrightarrow> \<not> abs_less d r"
  by (cases r; cases b; cases d) simp_all

lemma best_row_below:
  "\<not> abs_less d (area_diff b) \<Longrightarrow> \<not> abs_less d (area_diff (best_row b rows))"
proof (induction rows arbitrary: b)
  case Nil
  then show ?case by simp
next
  case (Cons r rows)
  then show ?case by (auto dest: abs_less_trans')
qed

lemma best_row_least:
  "r \<in> set (b # rows) \<Longrightarrow> \<not> abs_less (area_diff r) (area_diff (best_row b rows))"
proof (induction rows arbitrary: b)
  case Nil
  then show ?case by (simp add: abs_less_irrefl)
next
  case (Cons x rows)
  let ?b' = "if abs_less (area_diff x) (area_diff b) then x else b"
  have step: "best_row b (x # rows) = best_row ?b' rows" by simp
  show ?case
  proof (cases "r \<in> set rows")
    case True
    then have "r \<in> set (?b' # rows)" by simp
    from Cons.IH[OF this] show ?thesis unfolding step .
  next
    case False
    with Cons.prems have "r = b \<or> r = x" by auto
    then have "\<not> abs_less (area_diff r) (area_diff ?b')"
      by (cases "area_diff x"; cases "area_diff b") (auto simp: abs_less_irrefl)
    from best_row_below[OF this] show ?thesis unfolding step .
  qed
qed

lemma best_row_mem: "best_row b rows \<in> set (b # rows)"
  by (induction rows arbitrary: b) auto

lemma tolerance_met_mono:
  "tolerance_met bounds d \<Longrightarrow> \<not> abs_less d e \<Longrightarrow> tolerance_met bounds e"
  by (cases d; cases e) (auto simp: tolerance_met_def)

lemma tolerance_met_area:
  assumes "tolerance_met bounds (area_diff r)" "row_ok sim rgi_area r"
  shows "\<exists>area. sim (mb_offset r) = FileModel area
           \<and> (\<bar>rgi_area - area\<bar> < 1 / 10000
               \<or> (snd bounds - fst bounds \<le> 1 / 2 \<and> \<bar>rgi_area - area\<bar> < 1 / 1000))"
proof -
  from assms(2) obtain err where
    ad: "area_difference sim rgi_area (mb_offset r) = Some (area_diff r, err)"
    by (auto simp: row_ok_def)
  from assms(1) obtain d where d: "area_diff r = Finite d"
    by (cases "area_diff r") (auto simp: tolerance_met_def)
  from ad d obtain area where "sim (mb_offset r) = FileModel area" "d = rgi_area - area"
    by (cases "sim (mb_offset r)") (auto simp: area_difference_def)
  with assms(1) d show ?thesis
    by (auto simp: tolerance_met_def)
qed





text \<open>When every run fails, every pass logs \<^verbatim>\<open>-inf\<close> and moves the lower bound.\<close>

lemma best_row_all_failed:
  "area_diff b = NegInf \<Longrightarrow> \<forall>r \<in> set rows. area_diff r = NegInf \<Longrightarrow> best_row b rows = b"
  by (induction rows arbitrary: b) simp_all

lemma bisection_all_failed:
  assumes "\<forall>m. \<exists>ex. sim m = ErrorMessage ex"
  shows "\<exists>bounds' new. bisection sim rgi_area i bounds df = Inr (max i 15, bounds', df @ new)
           \<and> length new = 15 - i \<and> (\<forall>r \<in> set new. area_diff r = NegInf)
           \<and> (i < 15 \<longrightarrow> mb_offset (hd new) = py_round ((fst bounds + snd bounds) / 2) 2)"
proof (induction "15 - i" arbitrary: i bounds df)
  case 0
  then have "\<not> i < 15" by simp
  then show ?case by (simp add: bisection_done max_def)
next
  case (Suc k)
  then have lt: "i < 15" by simp
  define mb where "mb = py_round ((fst bounds + snd bounds) / 2) 2"
  from assms obtain ex where ex: "sim mb = ErrorMessage ex" by blast
  define err where "err = last (py_split ex '':'')"
  have ad: "area_difference sim rgi_area mb = Some (NegInf, err)"
    by (simp add: area_difference_def ex err_def)
  define row where "row = \<lparr>mb_offset = mb, area_diff = NegInf, error = err\<rparr>"
  have k: "k = 15 - Suc i" using Suc.hyps(2) by simp
  have step: "bisection sim rgi_area i bounds df
                = bisection sim rgi_area (Suc i) (mb, snd bounds) (df @ [row])"
    unfolding bisection_step[OF lt mb_def ad row_def] by (simp add: tolerance_met_def)
  from Suc.hyps(1)[OF k, of "(mb, snd bounds)" "df @ [row]"] obtain bounds' new where
    new: "bisection sim rgi_area (Suc i) (mb, snd bounds) (df @ [row])
            = Inr (max (Suc i) 15, bounds', (df @ [row]) @ new)"
      "length new = 15 - Suc i" "\<forall>r \<in> set new. area_diff r = NegInf"
    by blast
  have "bisection sim rgi_area i bounds df = Inr (max i 15, bounds', df @ (row # new))"
    using step new(1) lt by (simp add: max_def)
  moreover have "length (row # new) = 15 - i" using new(2) lt by simp
  moreover have "\<forall>r \<in> set (row # new). area_diff r = NegInf" using new(3) by (simp add: row_def)
  moreover have "mb_offset (hd (row # new)) = mb" by (simp add: row_def)
  ultimately show ?case unfolding mb_def by blast
qed

lemma find_mb_offset_all_failed:
  assumes "\<forall>m. \<exists>ex. sim m = ErrorMessage ex"
  shows "\<exists>out. find_mb_offset str_float sim rgi_area listing a b = Some out
           \<and> iterations out = 15
           \<and> length (experiment_iteration out) = 15
           \<and> (\<forall>r \<in> set (experiment_iteration out). area_diff r = NegInf)
           \<and> best_mb_offset out = py_round ((a + b) / 2) 2
           \<and> files_left out =
               filter (\<lambda>file. \<not> calibration_leftover str_float (py_round ((a + b) / 2) 2) file) listing"
proof -
  from bisection_all_failed[OF assms, of rgi_area 0 "(a, b)" "[]"] obtain bounds' new where
    new: "bisection sim rgi_area 0 (a, b) [] = Inr (15, bounds', new)"
      "length new = 15" "\<forall>r \<in> set new. area_diff r = NegInf"
      "mb_offset (hd new) = py_round ((a + b) / 2) 2"
    by auto
  from new(2) obtain r rows where df: "new = r # rows" by (cases new) auto
  have best: "best_row r rows = r"
    using new(3) by (intro best_row_all_failed) (simp_all add: df)
  define out where "out = \<lparr>iterations = 15, bracket = bounds', experiment_iteration = new,
    best_mb_offset = mb_offset r,
    files_left = filter (\<lambda>file. \<not> calibration_leftover str_float (mb_offset r) file) listing\<rparr>"
  have "find_mb_offset str_float sim rgi_area listing a b = Some out"
    using new(1) by (simp add: find_mb_offset_def df best Let_def out_def)
  moreover have "iterations out = 15" "experiment_iteration out = new"
    "best_mb_offset out = mb_offset r"
    "files_left out = filter (\<lambda>file. \<not> calibration_leftover str_float (mb_offset r) file) listing"
    by (simp_all add: out_def)
  moreover have "mb_offset r = py_round ((a + b) / 2) 2" using new(4) by (simp add: df)
  ultimately show ?thesis
    using new(2,3) by (intro exI[of _ out]) simp
qed




end
